theory Spec2Isabelle
  imports Main
begin

section \<open>Python values used by the token script\<close>

text \<open>
  The development embeds \<^verbatim>\<open>web/utils/generate_service_account_access_token.py\<close>.
  A Python \<^verbatim>\<open>str\<close> is a \<^typ>\<open>string\<close> whose characters stand for the code points
  0 to 255; a value that may be \<^verbatim>\<open>None\<close> (an unset flag) is a \<^typ>\<open>string option\<close>.
\<close>

text \<open>
  Exceptions are values. \<open>Exception msg\<close> is the script's own
  \<^verbatim>\<open>raise Exception(msg)\<close>; \<open>KeyError\<close> and \<open>TypeError\<close> come from subscripting,
  \<open>OverflowError\<close> from datetime arithmetic; \<open>LibraryError cls msg\<close> is whatever the
  operating system or a library (open, json, google.auth, requests) raises.
\<close>

datatype pyexn =
    Exception string
  | KeyError string
  | TypeError
  | OverflowError
  | LibraryError string string

text \<open>The name of an exception's class, \<^verbatim>\<open>type(e).__name__\<close>.\<close>

fun exn_class :: "pyexn \<Rightarrow> string" where
  "exn_class (Exception msg) = ''Exception''"
| "exn_class (KeyError k) = ''KeyError''"
| "exn_class TypeError = ''TypeError''"
| "exn_class OverflowError = ''OverflowError''"
| "exn_class (LibraryError cls msg) = cls"

text \<open>
  A decoded JSON document. An object keeps its members in insertion order, as a Python
  dict does. A float is carried by its \<^verbatim>\<open>repr\<close> (\<^verbatim>\<open>inf\<close>, \<^verbatim>\<open>-inf\<close> and \<^verbatim>\<open>nan\<close> for the
  three values that are not finite).
\<close>

datatype json =
    JNull
  | JBool bool
  | JInt int
  | JFloat string
  | JString string
  | JArray "json list"
  | JObject "(string \<times> json) list"

text \<open>Truth value of a flag or argument that is a \<^verbatim>\<open>str\<close> or \<^verbatim>\<open>None\<close>.\<close>

definition truthy :: "string option \<Rightarrow> bool" where
  "truthy v = (case v of None \<Rightarrow> False | Some s \<Rightarrow> s \<noteq> [])"

text \<open>\<^verbatim>\<open>s.split(c)\<close> for a one-character separator, and \<^verbatim>\<open>sep.join(xs)\<close>.\<close>

fun split_str :: "char \<Rightarrow> string \<Rightarrow> string list" where
  "split_str c [] = [[]]"
| "split_str c (x # xs) =
     (if x = c then [] # split_str c xs
      else (case split_str c xs of
              [] \<Rightarrow> [[x]]
            | y # ys \<Rightarrow> (x # y) # ys))"

fun join_str :: "string \<Rightarrow> string list \<Rightarrow> string" where
  "join_str sep [] = []"
| "join_str sep [x] = x"
| "join_str sep (x # y # ys) = x @ sep @ join_str sep (y # ys)"

text \<open>\<^verbatim>\<open>obj[key]\<close> on a decoded JSON value: only a dict has string keys.\<close>

fun py_getitem :: "json \<Rightarrow> string \<Rightarrow> pyexn + json" where
  "py_getitem (JObject kvs) k =
     (case map_of kvs k of None \<Rightarrow> Inl (KeyError k) | Some v \<Rightarrow> Inr v)"
| "py_getitem _ k = Inl TypeError"

fun has_key :: "json \<Rightarrow> string \<Rightarrow> bool" where
  "has_key (JObject kvs) k = (k \<in> fst ` set kvs)"
| "has_key _ k = False"

section \<open>Time\<close>

text \<open>
  An aware UTC \<^verbatim>\<open>datetime\<close> is its number of microseconds since 1970-01-01T00:00:00Z,
  an \<^typ>\<open>int\<close>; the largest one is 9999-12-31T23:59:59.999999.
\<close>

type_synonym datetime = int

definition datetime_max :: datetime where
  "datetime_max = 253402300799999999"

text \<open>\<^verbatim>\<open>now + datetime.timedelta(hours=1)\<close>: exact, or OverflowError past year 9999.\<close>

definition plus_one_hour :: "datetime \<Rightarrow> pyexn + datetime" where
  "plus_one_hour now =
     (if now + 3600000000 > datetime_max then Inl OverflowError
      else Inr (now + 3600000000))"

text \<open>
  \<^verbatim>\<open>int.bit_length()\<close>, used to place a quotient in its binade.
\<close>

function bit_length :: "nat \<Rightarrow> nat" where
  "bit_length n = (if n = 0 then 0 else Suc (bit_length (n div 2)))"
  by pat_completeness auto
termination
  by (relation "measure id") auto

declare bit_length.simps [simp del]

text \<open>
  A finite binary64 value is a pair \<open>(m, e)\<close> standing for \<open>m * 2 ^ e\<close>.
  \<open>true_divide a b\<close> is Python's \<^verbatim>\<open>a / b\<close> on ints with \<open>b > 0\<close>: the binary64
  value nearest to the quotient, ties to even (53 significant bits; quotients in the
  normal range, which is where all datetimes fall).
\<close>

type_synonym binary64 = "int \<times> int"

definition binade :: "nat \<Rightarrow> nat \<Rightarrow> int" where
  "binade a b =
     (let d = int (bit_length a) - int (bit_length b)
      in if (if 0 \<le> d then b * 2 ^ nat d \<le> a else b \<le> a * 2 ^ nat (- d))
         then d else d - 1)"

definition round_half_even :: "nat \<Rightarrow> nat \<Rightarrow> nat" where
  "round_half_even num den =
     (let q = num div den; r = num mod den
      in if 2 * r < den then q
         else if den < 2 * r then q + 1
         else if even q then q else q + 1)"

definition true_divide :: "int \<Rightarrow> int \<Rightarrow> binary64" where
  "true_divide a b =
     (if a = 0 then (0, 0)
      else
        let x = nat \<bar>a\<bar>; y = nat b;
            s = 52 - binade x y;
            m = (if 0 \<le> s then round_half_even (x * 2 ^ nat s) y
                 else round_half_even x (y * 2 ^ nat (- s)))
        in (sgn a * int m, - s))"

text \<open>\<^verbatim>\<open>dt.timestamp()\<close> of an aware datetime is \<^verbatim>\<open>(dt - EPOCH).total_seconds()\<close>,
  the microseconds divided by \<^verbatim>\<open>10**6\<close>.\<close>

definition timestamp :: "datetime \<Rightarrow> binary64" where
  "timestamp dt = true_divide dt 1000000"

text \<open>\<^verbatim>\<open>int(x)\<close> on a float truncates toward zero.\<close>

definition py_int :: "binary64 \<Rightarrow> int" where
  "py_int x =
     (case x of (m, e) \<Rightarrow>
        if 0 \<le> e then m * 2 ^ nat e
        else sgn m * (\<bar>m\<bar> div 2 ^ nat (- e)))"

section \<open>The JWT claim set\<close>

record claim_set =
  iss :: string
  sub :: string
  aud :: string
  scope :: string
  iat :: int
  exp :: int

text \<open>The \<^verbatim>\<open>payload\<close> dict of lines 94 to 105.\<close>

definition payload :: "string \<Rightarrow> string option \<Rightarrow> string list \<Rightarrow> datetime \<Rightarrow> datetime \<Rightarrow> claim_set" where
  "payload service_account_email_arg delegate_email_arg scopes now expiry =
     \<lparr> iss = service_account_email_arg,
       sub = (if truthy delegate_email_arg then the delegate_email_arg
              else service_account_email_arg),
       aud = ''https://oauth2.googleapis.com/token'',
       scope = join_str '' '' scopes,
       iat = py_int (timestamp now),
       exp = py_int (timestamp expiry) \<rparr>"

text \<open>Lines 82 and 92 to 105: split the scopes, take the expiry, build the payload.\<close>

definition build_claims :: "string \<Rightarrow> string option \<Rightarrow> string \<Rightarrow> datetime \<Rightarrow> pyexn + claim_set" where
  "build_claims service_account_email_arg delegate_email_arg scopes_arg now =
     (let scopes = split_str CHR '','' scopes_arg
      in case plus_one_hour now of
           Inl e \<Rightarrow> Inl e
         | Inr expiry \<Rightarrow>
             Inr (payload service_account_email_arg delegate_email_arg scopes now expiry))"

section \<open>Serialising JSON\<close>

text \<open>
  \<^verbatim>\<open>json.dumps\<close> with its defaults: separators \<^verbatim>\<open>", "\<close> and \<^verbatim>\<open>": "\<close>, every
  character outside the printable ASCII range escaped, and the floats that are not finite
  written \<^verbatim>\<open>Infinity\<close>, \<^verbatim>\<open>-Infinity\<close> and \<^verbatim>\<open>NaN\<close>.
\<close>

definition hex_digit :: "nat \<Rightarrow> char" where
  "hex_digit n = ''0123456789abcdef'' ! (n mod 16)"

definition escape_char :: "char \<Rightarrow> string" where
  "escape_char c =
     (if c = CHR 0x22 then [CHR 0x5C, CHR 0x22]
      else if c = CHR 0x5C then [CHR 0x5C, CHR 0x5C]
      else if c = CHR 0x08 then [CHR 0x5C, CHR ''b'']
      else if c = CHR 0x0C then [CHR 0x5C, CHR ''f'']
      else if c = CHR 0x0A then [CHR 0x5C, CHR ''n'']
      else if c = CHR 0x0D then [CHR 0x5C, CHR ''r'']
      else if c = CHR 0x09 then [CHR 0x5C, CHR ''t'']
      else if (of_char c :: nat) < 32 \<or> 126 < (of_char c :: nat)
        then [CHR 0x5C, CHR ''u'', CHR ''0'', CHR ''0'',
              hex_digit (of_char c div 16), hex_digit (of_char c)]
      else [c])"

definition quote_str :: "string \<Rightarrow> string" where
  "quote_str s = [CHR 0x22] @ concat (map escape_char s) @ [CHR 0x22]"

function nat_str :: "nat \<Rightarrow> string" where
  "nat_str n =
     (if n < 10 then [''0123456789'' ! n]
      else nat_str (n div 10) @ [''0123456789'' ! (n mod 10)])"
  by pat_completeness auto
termination
  by (relation "measure id") auto

declare nat_str.simps [simp del]

definition int_str :: "int \<Rightarrow> string" where
  "int_str i = (if i < 0 then ''-'' @ nat_str (nat (- i)) else nat_str (nat i))"

fun json_dumps :: "json \<Rightarrow> string"
  and dumps_items :: "json list \<Rightarrow> string"
  and dumps_members :: "(string \<times> json) list \<Rightarrow> string" where
  "json_dumps JNull = ''null''"
| "json_dumps (JBool b) = (if b then ''true'' else ''false'')"
| "json_dumps (JInt i) = int_str i"
| "json_dumps (JFloat r) =
     (if r = ''inf'' then ''Infinity''
      else if r = ''-inf'' then ''-Infinity''
      else if r = ''nan'' then ''NaN''
      else r)"
| "json_dumps (JString s) = quote_str s"
| "json_dumps (JArray xs) = ''['' @ dumps_items xs @ '']''"
| "json_dumps (JObject kvs) = ''{'' @ dumps_members kvs @ ''}''"
| "dumps_items [] = []"
| "dumps_items [x] = json_dumps x"
| "dumps_items (x # y # ys) = json_dumps x @ '', '' @ dumps_items (y # ys)"
| "dumps_members [] = []"
| "dumps_members [(k, v)] = quote_str k @ '': '' @ json_dumps v"
| "dumps_members ((k, v) # m # ms) =
     quote_str k @ '': '' @ json_dumps v @ '', '' @ dumps_members (m # ms)"

section \<open>The outside world\<close>

text \<open>
  The signer object built by \<^verbatim>\<open>google.auth.crypt.RSASigner.from_string\<close>, and the
  \<^verbatim>\<open>requests\<close> response with the three things the script reads from it:
  \<^verbatim>\<open>status_code\<close>, \<^verbatim>\<open>text\<close> (here \<open>response_text\<close>) and the outcome of \<^verbatim>\<open>json()\<close>.
\<close>

datatype signer = RSASigner string

record response =
  status_code :: int
  response_text :: string
  json_result :: "pyexn + json"

text \<open>
  What the libraries and the operating system answer is a parameter of the model:
  the clock, the JSON decoder, key parsing and JWT encoding, the token endpoint, and
  whether reading an existing file, or opening or writing a file, is refused.
\<close>

record env =
  clock :: datetime
  json_loads :: "string \<Rightarrow> pyexn + json"
  from_string :: "json \<Rightarrow> pyexn + signer"
  jwt_encode :: "signer \<Rightarrow> claim_set \<Rightarrow> (string \<times> string) list \<Rightarrow> pyexn + string"
  requests_post :: "string \<Rightarrow> (string \<times> string) list \<Rightarrow> pyexn + response"
  read_refused :: "string \<Rightarrow> pyexn option"
  open_refused :: "string \<Rightarrow> pyexn option"
  write_refused :: "string \<Rightarrow> string \<Rightarrow> pyexn option"

text \<open>
  The state the script acts on: the contents of the files, and the trace of the
  external actions performed so far, oldest first.
\<close>

datatype event =
    FileRead string
  | HttpPost string "(string \<times> string) list"
  | FileOpenWrite string
  | FileWrite string string
  | PrintAccessToken json
  | PrintError pyexn

record world =
  fs :: "string \<rightharpoonup> string"
  trace :: "event list"

definition emit :: "event \<Rightarrow> world \<Rightarrow> world" where
  "emit ev w = w\<lparr>trace := trace w @ [ev]\<rparr>"

section \<open>generate_jwt_and_access_token\<close>

text \<open>Lines 84 to 87: read the key file and decode it. A file that does not exist
  raises \<^verbatim>\<open>FileNotFoundError\<close>; one that exists may still be refused (permissions, a
  directory, bytes that do not decode).\<close>

definition load_key :: "env \<Rightarrow> string \<Rightarrow> world \<Rightarrow> (pyexn + json) \<times> world" where
  "load_key E private_key_file_arg w =
     (let w1 = emit (FileRead private_key_file_arg) w
      in case fs w private_key_file_arg of
           None \<Rightarrow>
             (Inl (LibraryError ''FileNotFoundError'' ''No such file or directory''), w1)
         | Some private_key \<Rightarrow>
             (case read_refused E private_key_file_arg of
                Some e \<Rightarrow> (Inl e, w1)
              | None \<Rightarrow> (json_loads E private_key, w1)))"

definition header :: "(string \<times> string) list" where
  "header = [(''alg'', ''RS256''), (''typ'', ''JWT'')]"

text \<open>Lines 108 and 109: build the signer from the key record, encode the JWT.\<close>

definition sign_jwt :: "env \<Rightarrow> json \<Rightarrow> claim_set \<Rightarrow> pyexn + string" where
  "sign_jwt E file_key claims =
     (case py_getitem file_key ''private_key'' of
        Inl e \<Rightarrow> Inl e
      | Inr pem \<Rightarrow>
          (case from_string E pem of
             Inl e \<Rightarrow> Inl e
           | Inr signer \<Rightarrow> jwt_encode E signer claims header))"

text \<open>Lines 82 to 109: everything up to the signed assertion.\<close>

definition make_assertion ::
  "env \<Rightarrow> string \<Rightarrow> string \<Rightarrow> string option \<Rightarrow> string \<Rightarrow> world \<Rightarrow> (pyexn + string) \<times> world" where
  "make_assertion E service_account_email_arg private_key_file_arg delegate_email_arg scopes_arg w =
     (case load_key E private_key_file_arg w of
        (Inl e, w1) \<Rightarrow> (Inl e, w1)
      | (Inr file_key, w1) \<Rightarrow>
          (case build_claims service_account_email_arg delegate_email_arg scopes_arg (clock E) of
             Inl e \<Rightarrow> (Inl e, w1)
           | Inr claims \<Rightarrow> (sign_jwt E file_key claims, w1)))"

definition token_url :: string where
  "token_url = ''https://oauth2.googleapis.com/token''"

definition token_file :: string where
  "token_file = ''service_account_token.json''"

definition form_data :: "string \<Rightarrow> (string \<times> string) list" where
  "form_data jwt =
     [(''grant_type'', ''urn:ietf:params:oauth:grant-type:jwt-bearer''),
      (''assertion'', jwt)]"

text \<open>Lines 122 and 123: open the token file for writing (which truncates it), decode the
  response, write its serialisation.\<close>

definition persist :: "env \<Rightarrow> response \<Rightarrow> world \<Rightarrow> (pyexn + unit) \<times> world" where
  "persist E resp w =
     (let w1 = emit (FileOpenWrite token_file) w
      in case open_refused E token_file of
           Some e \<Rightarrow> (Inl e, w1)
         | None \<Rightarrow>
             (let w2 = w1\<lparr>fs := (fs w1)(token_file \<mapsto> [])\<rparr>
              in case json_result resp of
                   Inl e \<Rightarrow> (Inl e, w2)
                 | Inr body \<Rightarrow>
                     (let content = json_dumps body;
                          w3 = emit (FileWrite token_file content) w2
                      in case write_refused E token_file content of
                           Some e \<Rightarrow> (Inl e, w3)
                         | None \<Rightarrow> (Inr (), w3\<lparr>fs := (fs w3)(token_file \<mapsto> content)\<rparr>))))"

text \<open>Lines 111 to 127: post the assertion, check the status, persist, extract.\<close>

definition exchange :: "env \<Rightarrow> string \<Rightarrow> world \<Rightarrow> (pyexn + json) \<times> world" where
  "exchange E jwt w =
     (let w1 = emit (HttpPost token_url (form_data jwt)) w
      in case requests_post E token_url (form_data jwt) of
           Inl e \<Rightarrow> (Inl e, w1)
         | Inr resp \<Rightarrow>
             if status_code resp \<noteq> 200
             then (Inl (Exception (''Error getting access token: '' @ response_text resp)), w1)
             else (case persist E resp w1 of
                     (Inl e, w2) \<Rightarrow> (Inl e, w2)
                   | (Inr u, w2) \<Rightarrow>
                       (case json_result resp of
                          Inl e \<Rightarrow> (Inl e, w2)
                        | Inr body \<Rightarrow> (py_getitem body ''access_token'', w2))))"

definition generate_jwt_and_access_token ::
  "env \<Rightarrow> string \<Rightarrow> string \<Rightarrow> string option \<Rightarrow> string \<Rightarrow> world \<Rightarrow> (pyexn + json) \<times> world" where
  "generate_jwt_and_access_token E service_account_email_arg private_key_file_arg
       delegate_email_arg scopes_arg w =
     (case make_assertion E service_account_email_arg private_key_file_arg
             delegate_email_arg scopes_arg w of
        (Inl e, w1) \<Rightarrow> (Inl e, w1)
      | (Inr jwt, w1) \<Rightarrow> exchange E jwt w1)"

section \<open>main\<close>

record flag_values =
  service_account_email :: "string option"
  delegate_email :: "string option"
  private_key_file_path :: string
  scopes_flag :: string

definition main :: "env \<Rightarrow> flag_values \<Rightarrow> world \<Rightarrow> (pyexn + unit) \<times> world" where
  "main E F w =
     (if \<not> truthy (service_account_email F)
        then (Inl (Exception ''service account is required''), w)
      else if \<not> truthy (delegate_email F)
        then (Inl (Exception ''delegate email is required''), w)
      else
        (case generate_jwt_and_access_token E (the (service_account_email F))
                (private_key_file_path F) (delegate_email F) (scopes_flag F) w of
           (Inr access_token, w1) \<Rightarrow> (Inr (), emit (PrintAccessToken access_token) w1)
         | (Inl e, w1) \<Rightarrow> (Inr (), emit (PrintError e) w1)))"

section \<open>A test run\<close>

text \<open>
  One concrete world for the worked examples: a key file holding a PEM string the key
  parser accepts, a clock in November 2023, an encoder that returns a fixed assertion,
  and a token endpoint, an \<^verbatim>\<open>open\<close> and a \<^verbatim>\<open>write\<close> whose answers are chosen per example.
\<close>

definition key_text :: string where
  \<open>key_text = ''{"private_key": "PEM"}''\<close>

definition key_record :: json where
  "key_record = JObject [(''private_key'', JString ''PEM'')]"

definition bad_key_text :: string where
  \<open>bad_key_text = ''{"private_key": "garbage"}''\<close>

definition bad_key_record :: json where
  "bad_key_record = JObject [(''private_key'', JString ''garbage'')]"

definition bad_key_error :: pyexn where
  "bad_key_error = LibraryError ''ValueError'' ''No key could be detected.''"

definition granted_text :: string where
  \<open>granted_text = ''{"access_token":"abc123","expires_in":3600}''\<close>

definition granted_json :: json where
  "granted_json = JObject [(''access_token'', JString ''abc123''), (''expires_in'', JInt 3600)]"

definition granted :: response where
  "granted =
     \<lparr> status_code = 200, response_text = granted_text, json_result = Inr granted_json \<rparr>"

definition rejected_text :: string where
  \<open>rejected_text = ''{"error":"invalid_grant"}''\<close>

definition rejected :: "int \<Rightarrow> response" where
  "rejected code =
     \<lparr> status_code = code, response_text = rejected_text,
       json_result = Inr (JObject [(''error'', JString ''invalid_grant'')]) \<rparr>"

definition test_env :: "response \<Rightarrow> pyexn option \<Rightarrow> pyexn option \<Rightarrow> env" where
  "test_env r op wr =
     \<lparr> clock = 1700000000000000,
       json_loads = (\<lambda>s. if s = key_text then Inr key_record
                          else if s = bad_key_text then Inr bad_key_record
                          else Inl (LibraryError ''JSONDecodeError'' s)),
       from_string = (\<lambda>j. if j = JString ''PEM'' then Inr (RSASigner ''PEM'')
                           else Inl bad_key_error),
       jwt_encode = (\<lambda>k c h. Inr ''header.claims.signature''),
       requests_post = (\<lambda>u f. Inr r),
       read_refused = (\<lambda>p. None),
       open_refused = (\<lambda>p. op),
       write_refused = (\<lambda>p c. wr) \<rparr>"

definition test_world :: world where
  "test_world = \<lparr> fs = [''./credentials.json'' \<mapsto> key_text], trace = [] \<rparr>"

definition bad_key_world :: world where
  "bad_key_world = \<lparr> fs = [''./credentials.json'' \<mapsto> bad_key_text], trace = [] \<rparr>"

definition tokenless_json :: json where
  "tokenless_json = JObject [(''expires_in'', JInt 3600)]"

definition tokenless :: response where
  \<open>tokenless =
     \<lparr> status_code = 200, response_text = ''{"expires_in":3600}'',
       json_result = Inr tokenless_json \<rparr>\<close>

definition disk_full :: pyexn where
  "disk_full = LibraryError ''OSError'' ''No space left on device''"

definition test_flags :: "string option \<Rightarrow> string option \<Rightarrow> flag_values" where
  "test_flags sa d =
     \<lparr> service_account_email = sa, delegate_email = d,
       private_key_file_path = ''./credentials.json'', scopes_flag = ''a,b'' \<rparr>"

section \<open>Splitting and joining\<close>

lemma split_str_no_sep: "c \<notin> set s \<Longrightarrow> split_str c s = [s]"
  by (induction s) auto

lemma split_str_append_sep:
  "c \<notin> set s \<Longrightarrow> split_str c (s @ c # r) = s # split_str c r"
  by (induction s) auto

lemma split_join_inverse:
  "S \<noteq> [] \<Longrightarrow> \<forall>s\<in>set S. c \<notin> set s \<Longrightarrow> split_str c (join_str [c] S) = S"
proof (induction S)
  case Nil
  then show ?case by simp
next
  case (Cons x xs)
  show ?case
  proof (cases xs)
    case Nil
    with Cons.prems show ?thesis by (simp add: split_str_no_sep)
  next
    case (Cons y ys)
    with Cons.IH Cons.prems show ?thesis by (simp add: split_str_append_sep)
  qed
qed

lemma build_claims_scope:
  "build_claims sa d scopes_arg now = Inr c \<Longrightarrow>
     scope c = join_str '' '' (split_str CHR '','' scopes_arg)"
  by (auto simp: build_claims_def payload_def split: if_splits sum.splits)

section \<open>The claim set\<close>

text \<open>
  C4. For every delegate email \<open>d\<close>, absent (\<open>None\<close>), empty or not, and every issuer
  email, the \<open>sub\<close> claim of the payload is \<open>d\<close> when \<open>d\<close> is non-empty and the issuer
  email otherwise.
\<close>

theorem subject_claim:
  "sub (payload sa d scs now expiry) =
     (case d of None \<Rightarrow> sa | Some a \<Rightarrow> if a \<noteq> [] then a else sa)"
  by (simp add: payload_def truthy_def split: option.splits)

text \<open>
  C5. For every list \<open>S\<close> of scopes, handed to the function the only way it accepts
  them, joined with commas (so no scope contains a comma), the \<open>scope\<close> claim is the
  elements of \<open>S\<close> joined with single spaces, in the order given.
\<close>

theorem scope_claim_joined:
  assumes "\<forall>s\<in>set S. CHR '','' \<notin> set s"
    and "build_claims sa d (join_str '','' S) now = Inr c"
  shows "scope c = join_str '' '' S"
proof (cases "S = []")
  case True
  with assms(2) show ?thesis by (simp add: build_claims_scope)
next
  case False
  from False assms(1) have "split_str CHR '','' (join_str '','' S) = S"
    by (rule split_join_inverse)
  with assms(2) show ?thesis by (simp add: build_claims_scope)
qed

theorem scope_claim_joined_witness:
  "scope (payload ''sa@p.iam.gserviceaccount.com'' None
            (split_str CHR '','' ''b,a,c'') 1700000000000000 1700003600000000) = ''b a c''"
  using scope_claim_joined [of "[''b'', ''a'', ''c'']" "''sa@p.iam.gserviceaccount.com''" None
      1700000000000000
      "payload ''sa@p.iam.gserviceaccount.com'' None
         (split_str CHR '','' ''b,a,c'') 1700000000000000 1700003600000000"]
  by (simp add: build_claims_def plus_one_hour_def datetime_max_def)

section \<open>Missing flags\<close>

text \<open>
  C7. Whenever the service account email or the delegate email is missing (unset or
  empty), \<open>main\<close> raises at once: the world is returned untouched, so no file was read
  and no request sent, and the message names the missing flag, the two messages being
  different.
\<close>

theorem main_missing_input:
  assumes "\<not> truthy (service_account_email F) \<or> \<not> truthy (delegate_email F)"
  shows "main E F w =
           (Inl (Exception (if \<not> truthy (service_account_email F)
                            then ''service account is required''
                            else ''delegate email is required'')), w)
         \<and> ''service account is required'' \<noteq> ''delegate email is required''"
  using assms by (auto simp: main_def)

theorem main_missing_input_witness:
  "main (test_env granted None None) (test_flags (Some ''sa@p.iam.gserviceaccount.com'') None)
       test_world
     = (Inl (Exception ''delegate email is required''), test_world)"
  using main_missing_input [of "test_flags (Some ''sa@p.iam.gserviceaccount.com'') None"
      "test_env granted None None" test_world]
  by (simp add: test_flags_def truthy_def)

section \<open>Running the pipeline\<close>

lemma make_assertion_world:
  "snd (make_assertion E sa pk d sc w) = emit (FileRead pk) w"
  by (simp add: make_assertion_def load_key_def Let_def split: option.splits sum.splits)

lemma generate_after_assertion:
  "make_assertion E sa pk d sc w = (Inr jwt, w1) \<Longrightarrow>
     generate_jwt_and_access_token E sa pk d sc w = exchange E jwt (emit (FileRead pk) w)"
  using make_assertion_world [of E sa pk d sc w]
  by (simp add: generate_jwt_and_access_token_def)

lemma generate_assertion_failed:
  "fst (make_assertion E sa pk d sc w) = Inl e \<Longrightarrow>
     generate_jwt_and_access_token E sa pk d sc w = (Inl e, emit (FileRead pk) w)"
  using make_assertion_world [of E sa pk d sc w]
  by (cases "make_assertion E sa pk d sc w") (simp add: generate_jwt_and_access_token_def)

lemma test_assertion:
  "make_assertion (test_env r op wr) ''sa@p.iam.gserviceaccount.com'' ''./credentials.json''
       (Some ''user@example.com'') ''a,b'' test_world
     = (Inr ''header.claims.signature'', emit (FileRead ''./credentials.json'') test_world)"
  by (simp add: make_assertion_def load_key_def test_env_def test_world_def key_text_def
      key_record_def build_claims_def plus_one_hour_def datetime_max_def sign_jwt_def Let_def)

lemma test_env_answers [simp]:
  "requests_post (test_env r op wr) u f = Inr r"
  "open_refused (test_env r op wr) p = op"
  "write_refused (test_env r op wr) p c = wr"
  by (simp_all add: test_env_def)

lemma granted_fields [simp]:
  "status_code granted = 200"
  "response_text granted = granted_text"
  "json_result granted = Inr granted_json"
  by (simp_all add: granted_def)

lemma rejected_fields [simp]:
  "status_code (rejected code) = code"
  "response_text (rejected code) = rejected_text"
  by (simp_all add: rejected_def)

lemma test_run:
  "generate_jwt_and_access_token (test_env r op wr) ''sa@p.iam.gserviceaccount.com''
       ''./credentials.json'' (Some ''user@example.com'') ''a,b'' test_world
     = exchange (test_env r op wr) ''header.claims.signature''
         (emit (FileRead ''./credentials.json'') test_world)"
  by (rule generate_after_assertion [OF test_assertion])

lemma dump_granted:
  \<open>json_dumps granted_json = ''{"access_token": "abc123", "expires_in": 3600}''\<close>
  by (simp add: granted_json_def quote_str_def escape_char_def int_str_def nat_str.simps)

lemma granted_has_token: "has_key granted_json ''access_token''"
  by (simp add: granted_json_def)

lemma dump_tokenless: \<open>json_dumps tokenless_json = ''{"expires_in": 3600}''\<close>
  by (simp add: tokenless_json_def quote_str_def escape_char_def int_str_def nat_str.simps)

lemma getitem_missing:
  "\<not> has_key body k \<Longrightarrow>
     py_getitem body k = Inl (case body of JObject kvs \<Rightarrow> KeyError k | _ \<Rightarrow> TypeError)"
  by (cases body) (auto simp: map_of_eq_None_iff split: option.splits)

section \<open>A rejected token exchange\<close>

text \<open>
  C1, as the code has it. Once the assertion is signed and the endpoint answers with
  a status other than 200, the function raises the generic \<open>Exception\<close> whose message is
  \<^verbatim>\<open>Error getting access token: \<close> followed by the raw response body. The status code
  is not part of the exception. Nothing is returned, and the world afterwards differs
  from the one before only by the key-file read and the POST in the trace: the token
  file is neither opened nor written.
\<close>

theorem rejected_exchange_raises:
  assumes "make_assertion E sa pk d sc w = (Inr jwt, w1)"
    and "requests_post E token_url (form_data jwt) = Inr resp"
    and "status_code resp \<noteq> 200"
  shows "generate_jwt_and_access_token E sa pk d sc w =
           (Inl (Exception (''Error getting access token: '' @ response_text resp)),
            w\<lparr>trace := trace w @ [FileRead pk, HttpPost token_url (form_data jwt)]\<rparr>)"
  using assms(2,3) generate_after_assertion [OF assms(1)]
  by (simp add: exchange_def emit_def Let_def)

theorem rejected_exchange_raises_witness:
  "generate_jwt_and_access_token (test_env (rejected 401) None None)
       ''sa@p.iam.gserviceaccount.com'' ''./credentials.json'' (Some ''user@example.com'') ''a,b''
       test_world =
     (Inl (Exception (''Error getting access token: '' @ rejected_text)),
      test_world\<lparr>trace := trace test_world @
         [FileRead ''./credentials.json'',
          HttpPost token_url (form_data ''header.claims.signature'')]\<rparr>)"
  using rejected_exchange_raises [OF test_assertion [of "rejected 401" None None],
      of "rejected 401"]
  by simp

text \<open>
  C1, as the specification words it, asks the error to carry the HTTP status code. It
  does not: a 401 and a 403 with the same body raise the very same exception.
\<close>

theorem status_code_not_carried:
  "status_code (rejected 401) \<noteq> 200 \<and> status_code (rejected 403) \<noteq> 200 \<and>
   status_code (rejected 401) \<noteq> status_code (rejected 403) \<and>
   fst (generate_jwt_and_access_token (test_env (rejected 401) None None)
       ''sa@p.iam.gserviceaccount.com'' ''./credentials.json'' (Some ''user@example.com'') ''a,b''
       test_world) =
   fst (generate_jwt_and_access_token (test_env (rejected 403) None None)
       ''sa@p.iam.gserviceaccount.com'' ''./credentials.json'' (Some ''user@example.com'') ''a,b''
       test_world)"
  by (simp add: test_run exchange_def Let_def)

section \<open>Persisting the token response\<close>

text \<open>
  C2, as the code has it. After a successful exchange (status 200, a body with an
  \<^verbatim>\<open>access_token\<close>), if the token file cannot be opened, or is opened and cannot be
  written, the function raises that very error: the access token is not returned.
\<close>

theorem persist_failure_raises:
  assumes "make_assertion E sa pk d sc w = (Inr jwt, w1)"
    and "requests_post E token_url (form_data jwt) = Inr resp"
    and "status_code resp = 200"
    and "json_result resp = Inr body"
    and "has_key body ''access_token''"
    and "open_refused E token_file = Some e \<or>
         (open_refused E token_file = None \<and>
          write_refused E token_file (json_dumps body) = Some e)"
  shows "fst (generate_jwt_and_access_token E sa pk d sc w) = Inl e"
  using assms(2-4,6) generate_after_assertion [OF assms(1)]
  by (auto simp: exchange_def persist_def Let_def)

theorem persist_failure_raises_witness:
  "fst (generate_jwt_and_access_token (test_env granted None (Some disk_full))
       ''sa@p.iam.gserviceaccount.com'' ''./credentials.json'' (Some ''user@example.com'') ''a,b''
       test_world) = Inl disk_full"
  using persist_failure_raises [OF test_assertion [of granted None "Some disk_full"],
      of granted granted_json disk_full]
  by (simp add: granted_has_token)

text \<open>
  C2, as the specification words it, has the token returned all the same. With a full
  disk and the response \<^verbatim>\<open>{"access_token":"abc123","expires_in":3600}\<close> the result is
  not \<^verbatim>\<open>"abc123"\<close>.
\<close>

theorem token_lost_on_write_failure:
  "status_code granted = 200 \<and> json_result granted = Inr granted_json \<and>
   py_getitem granted_json ''access_token'' = Inr (JString ''abc123'') \<and>
   fst (generate_jwt_and_access_token (test_env granted None (Some disk_full))
       ''sa@p.iam.gserviceaccount.com'' ''./credentials.json'' (Some ''user@example.com'') ''a,b''
       test_world) \<noteq> Inr (JString ''abc123'')"
  by (simp add: test_run exchange_def persist_def Let_def granted_json_def)

text \<open>
  C6, as the code has it. After a 200 response whose body decodes as JSON, when the
  file system accepts the write, the token file holds \<^verbatim>\<open>json.dumps\<close> of the decoded
  body: the same JSON value, serialised anew.
\<close>

theorem token_file_holds_dump:
  assumes "make_assertion E sa pk d sc w = (Inr jwt, w1)"
    and "requests_post E token_url (form_data jwt) = Inr resp"
    and "status_code resp = 200"
    and "json_result resp = Inr body"
    and "open_refused E token_file = None"
    and "write_refused E token_file (json_dumps body) = None"
  shows "fs (snd (generate_jwt_and_access_token E sa pk d sc w)) token_file
           = Some (json_dumps body)"
  using assms(2-6) generate_after_assertion [OF assms(1)]
  by (simp add: exchange_def persist_def Let_def emit_def)

theorem token_file_holds_dump_witness:
  \<open>fs (snd (generate_jwt_and_access_token (test_env granted None None)
       ''sa@p.iam.gserviceaccount.com'' ''./credentials.json'' (Some ''user@example.com'') ''a,b''
       test_world)) token_file = Some ''{"access_token": "abc123", "expires_in": 3600}''\<close>
  using token_file_holds_dump [OF test_assertion [of granted None None],
      of granted granted_json]
  by (simp add: dump_granted)

text \<open>
  C6, as the specification words it, has the file hold the raw body verbatim. For the
  body \<^verbatim>\<open>{"access_token":"abc123","expires_in":3600}\<close> the file holds the same members
  with a space after each colon and comma, which is not the text received.
\<close>

theorem token_file_not_verbatim:
  \<open>status_code granted = 200 \<and>
   response_text granted = ''{"access_token":"abc123","expires_in":3600}'' \<and>
   fs (snd (generate_jwt_and_access_token (test_env granted None None)
       ''sa@p.iam.gserviceaccount.com'' ''./credentials.json'' (Some ''user@example.com'') ''a,b''
       test_world)) token_file \<noteq> Some (response_text granted)\<close>
  by (simp add: test_run exchange_def persist_def Let_def emit_def dump_granted
      granted_text_def)

text \<open>
  C10. After a 200 response whose decoded body has no \<^verbatim>\<open>access_token\<close> key (an object
  without it, or no object at all), on a file system that accepts the write, the token
  file is written first, with the serialised body, and only then does the function
  fail, with the \<open>KeyError\<close> or \<open>TypeError\<close> of the subscript: no token is returned.
\<close>

theorem missing_access_token_after_write:
  assumes "make_assertion E sa pk d sc w = (Inr jwt, w1)"
    and "requests_post E token_url (form_data jwt) = Inr resp"
    and "status_code resp = 200"
    and "json_result resp = Inr body"
    and "\<not> has_key body ''access_token''"
    and "open_refused E token_file = None"
    and "write_refused E token_file (json_dumps body) = None"
  shows "fst (generate_jwt_and_access_token E sa pk d sc w)
           = Inl (case body of JObject kvs \<Rightarrow> KeyError ''access_token'' | _ \<Rightarrow> TypeError)
       \<and> fs (snd (generate_jwt_and_access_token E sa pk d sc w)) token_file
           = Some (json_dumps body)
       \<and> trace (snd (generate_jwt_and_access_token E sa pk d sc w))
           = trace w @ [FileRead pk, HttpPost token_url (form_data jwt),
                        FileOpenWrite token_file, FileWrite token_file (json_dumps body)]"
  using assms(2-4,6,7) generate_after_assertion [OF assms(1)] getitem_missing [OF assms(5)]
  by (simp add: exchange_def persist_def Let_def emit_def)

theorem missing_access_token_after_write_witness:
  \<open>fst (generate_jwt_and_access_token (test_env tokenless None None)
       ''sa@p.iam.gserviceaccount.com'' ''./credentials.json'' (Some ''user@example.com'') ''a,b''
       test_world) = Inl (KeyError ''access_token'')
   \<and> fs (snd (generate_jwt_and_access_token (test_env tokenless None None)
       ''sa@p.iam.gserviceaccount.com'' ''./credentials.json'' (Some ''user@example.com'') ''a,b''
       test_world)) token_file = Some ''{"expires_in": 3600}''\<close>
proof -
  have j: "json_result tokenless = Inr tokenless_json" and s: "status_code tokenless = 200"
    by (simp_all add: tokenless_def)
  have k: "\<not> has_key tokenless_json ''access_token''"
    by (simp add: tokenless_json_def)
  have c: "(case tokenless_json of JObject kvs \<Rightarrow> KeyError ''access_token'' | _ \<Rightarrow> TypeError)
             = KeyError ''access_token''"
    by (simp add: tokenless_json_def)
  show ?thesis
    using missing_access_token_after_write [OF test_assertion [of tokenless None None] _ s j k]
    by (simp add: dump_tokenless c)
qed

section \<open>An unparseable private key\<close>

text \<open>
  C8, as the code has it. When the key file is read and decoded and its
  \<^verbatim>\<open>private_key\<close> member is not accepted by \<^verbatim>\<open>RSASigner.from_string\<close>, the function
  fails and the only action in the trace is the key-file read: no request is posted and
  no file is written. The error raised is the very exception of the key parser, passed
  on unchanged, the clock being such that the expiry computed just before (line 93) is
  a valid datetime.
\<close>

theorem unparseable_key_stops_before_network:
  assumes "fs w pk = Some contents"
    and "read_refused E pk = None"
    and "json_loads E contents = Inr file_key"
    and "py_getitem file_key ''private_key'' = Inr pem"
    and "from_string E pem = Inl e"
  shows "(\<exists>x. fst (generate_jwt_and_access_token E sa pk d sc w) = Inl x)
       \<and> snd (generate_jwt_and_access_token E sa pk d sc w) = w\<lparr>trace := trace w @ [FileRead pk]\<rparr>
       \<and> (clock E + 3600000000 \<le> datetime_max \<longrightarrow>
            fst (generate_jwt_and_access_token E sa pk d sc w) = Inl e)"
proof -
  have "\<exists>x. fst (make_assertion E sa pk d sc w) = Inl x"
    using assms
    by (simp add: make_assertion_def load_key_def build_claims_def sign_jwt_def Let_def
        split: sum.splits)
  then obtain x where x: "fst (make_assertion E sa pk d sc w) = Inl x" ..
  have stop: "generate_jwt_and_access_token E sa pk d sc w = (Inl x, emit (FileRead pk) w)"
    by (rule generate_assertion_failed [OF x])
  have "clock E + 3600000000 \<le> datetime_max \<Longrightarrow> x = e"
    using assms x
    by (simp add: make_assertion_def load_key_def build_claims_def sign_jwt_def Let_def
        plus_one_hour_def)
  with stop show ?thesis by (simp add: emit_def)
qed

theorem unparseable_key_stops_before_network_witness:
  "generate_jwt_and_access_token (test_env granted None None)
       ''sa@p.iam.gserviceaccount.com'' ''./credentials.json'' (Some ''user@example.com'') ''a,b''
       bad_key_world
     = (Inl bad_key_error, bad_key_world\<lparr>trace := [FileRead ''./credentials.json'']\<rparr>)"
proof -
  let ?E = "test_env granted None None"
  have a: "fs bad_key_world ''./credentials.json'' = Some bad_key_text"
    by (simp add: bad_key_world_def)
  have r: "read_refused ?E ''./credentials.json'' = None"
    by (simp add: test_env_def)
  have b: "json_loads ?E bad_key_text = Inr bad_key_record"
    by (simp add: test_env_def bad_key_text_def key_text_def)
  have c: "py_getitem bad_key_record ''private_key'' = Inr (JString ''garbage'')"
    by (simp add: bad_key_record_def)
  have d: "from_string ?E (JString ''garbage'') = Inl bad_key_error"
    by (simp add: test_env_def)
  have t: "clock ?E + 3600000000 \<le> datetime_max"
    by (simp add: test_env_def datetime_max_def)
  have tr: "trace bad_key_world = []"
    by (simp add: bad_key_world_def)
  show ?thesis
    using unparseable_key_stops_before_network [OF a r b c d,
        of "''sa@p.iam.gserviceaccount.com''" "Some ''user@example.com''" "''a,b''"] t tr
    by (simp add: prod_eq_iff)
qed

text \<open>
  C8, as the specification words it, has the call fail with a \<^verbatim>\<open>SigningError\<close>. The
  script defines no such class and wraps nothing: with a key parser that answers as
  google.auth does, raising \<^verbatim>\<open>ValueError\<close>, the exception that leaves the function is
  that \<^verbatim>\<open>ValueError\<close>.
\<close>

theorem unparseable_key_raises_value_error:
  "from_string (test_env granted None None) (JString ''garbage'')
     = Inl (LibraryError ''ValueError'' ''No key could be detected.'')
   \<and> fst (generate_jwt_and_access_token (test_env granted None None)
       ''sa@p.iam.gserviceaccount.com'' ''./credentials.json'' (Some ''user@example.com'') ''a,b''
       bad_key_world)
     = Inl (LibraryError ''ValueError'' ''No key could be detected.'')
   \<and> exn_class (LibraryError ''ValueError'' ''No key could be detected.'') \<noteq> ''SigningError''"
  by (simp add: generate_jwt_and_access_token_def make_assertion_def load_key_def
      build_claims_def plus_one_hour_def datetime_max_def sign_jwt_def Let_def
      test_env_def bad_key_world_def bad_key_text_def key_text_def bad_key_record_def
      bad_key_error_def emit_def)

section \<open>Timestamps\<close>

text \<open>
  Below \<open>2 ^ 33\<close> seconds the spacing of binary64 values is finer than a microsecond,
  so rounding the quotient never reaches the next whole second: \<^verbatim>\<open>int(dt.timestamp())\<close>
  is the whole number of seconds.
\<close>

lemma round_half_even_bounds:
  "num div den \<le> round_half_even num den \<and> round_half_even num den \<le> num div den + 1"
  by (simp add: round_half_even_def Let_def)

lemma scaled_quotient_lower:
  fixes x y P :: nat
  assumes "0 < y"
  shows "(x div y) * P \<le> (x * P) div y"
proof -
  have "(x div y) * y \<le> x" by simp
  then have "((x div y) * y) * P \<le> x * P" by (rule mult_le_mono1)
  then have "((x div y) * P) * y \<le> x * P" by (simp add: mult_ac)
  with assms show ?thesis by (simp add: less_eq_div_iff_mult_less_eq)
qed

lemma scaled_quotient_upper:
  fixes x y P :: nat
  assumes "0 < y" and "y < P"
  shows "(x * P) div y + 1 < (x div y + 1) * P"
proof -
  let ?q = "(x * P) div y" and ?k = "x div y"
  have "?q * y \<le> x * P" by simp
  then have a: "(?q + 1) * y \<le> x * P + y" by (simp add: algebra_simps)
  have "x < (?k + 1) * y" using assms(1) by (simp add: dividend_less_div_times add.commute)
  then have "x + 1 \<le> (?k + 1) * y" by simp
  then have "(x + 1) * P \<le> ((?k + 1) * y) * P" by (rule mult_le_mono1)
  then have "x * P + P \<le> ((?k + 1) * P) * y" by (simp add: algebra_simps)
  with assms(2) have "x * P + y < ((?k + 1) * P) * y" by linarith
  with a have "(?q + 1) * y < ((?k + 1) * P) * y" by linarith
  then show ?thesis by (simp only: mult_less_cancel2)
qed

lemma rounded_quotient_floor:
  fixes x y P :: nat
  assumes "0 < y" and "y < P"
  shows "round_half_even (x * P) y div P = x div y"
proof -
  let ?m = "round_half_even (x * P) y"
  have P: "0 < P" using assms by simp
  have "(x div y) * P \<le> ?m"
    using scaled_quotient_lower [OF assms(1), of x P] round_half_even_bounds [of "x * P" y]
    by linarith
  then have lo: "x div y \<le> ?m div P"
    using P by (simp add: less_eq_div_iff_mult_less_eq)
  have "?m < (x div y + 1) * P"
    using scaled_quotient_upper [OF assms, of x] round_half_even_bounds [of "x * P" y]
    by linarith
  then have hi: "?m div P < x div y + 1"
    using P by (simp add: div_less_iff_less_mult)
  from lo hi show ?thesis by linarith
qed


lemma bit_length_bound: "n < 2 ^ k \<Longrightarrow> bit_length n \<le> k"
proof (induction k arbitrary: n)
  case 0
  then show ?case by (simp add: bit_length.simps)
next
  case (Suc k)
  from Suc.prems have "n div 2 < 2 ^ k" by simp
  then have "bit_length (n div 2) \<le> k" by (rule Suc.IH)
  then show ?case by (subst bit_length.simps) simp
qed

lemma bit_length_million: "bit_length 1000000 = 20"
  by (simp add: bit_length.simps)

lemma binade_before_2242:
  assumes "x < 2 ^ 33 * 1000000"
  shows "binade x 1000000 \<le> 32"
proof -
  have "x < 2 ^ 53" using assms by simp
  then have "bit_length x \<le> 53" by (rule bit_length_bound)
  then have d: "int (bit_length x) - int (bit_length 1000000) \<le> 33"
    by (simp add: bit_length_million)
  show ?thesis
  proof (cases "int (bit_length x) - int (bit_length 1000000) = 33")
    case True
    with assms show ?thesis by (simp add: binade_def Let_def)
  next
    case False
    with d have "int (bit_length x) - int (bit_length 1000000) \<le> 32" by linarith
    then show ?thesis by (simp add: binade_def Let_def)
  qed
qed

lemma timestamp_floor:
  assumes "0 \<le> t" and "t < 2 ^ 33 * 1000000"
  shows "py_int (timestamp t) = t div 1000000"
proof (cases "t = 0")
  case True
  then show ?thesis by (simp add: timestamp_def true_divide_def py_int_def)
next
  case False
  define x where "x = nat t"
  define n where "n = nat (52 - binade x 1000000)"
  have xt: "int x = t" and xpos: "0 < x" using assms(1) False by (simp_all add: x_def)
  have "x < 2 ^ 33 * 1000000" using assms by (simp add: x_def nat_less_iff)
  then have e: "binade x 1000000 \<le> 32" by (rule binade_before_2242)
  then have s: "52 - binade x 1000000 = int n" and n: "20 \<le> n" by (simp_all add: n_def)
  have "(2::nat) ^ 20 \<le> 2 ^ n" using n by (rule power_increasing) simp
  then have P: "(1000000::nat) < 2 ^ n" by simp
  have m: "round_half_even (x * 2 ^ n) 1000000 div 2 ^ n = x div 1000000"
    by (rule rounded_quotient_floor) (use P in simp_all)
  have ts: "timestamp t = (int (round_half_even (x * 2 ^ n) 1000000), - int n)"
    using False assms(1) s
    by (simp add: timestamp_def true_divide_def Let_def x_def [symmetric] n_def [symmetric])
  have "py_int (timestamp t) = int (round_half_even (x * 2 ^ n) 1000000 div 2 ^ n)"
    using n by (simp add: ts py_int_def sgn_if zdiv_int)
  also have "\<dots> = int (x div 1000000)" by (simp only: m)
  also have "\<dots> = t div 1000000" by (simp add: zdiv_int xt)
  finally show ?thesis .
qed


lemmas float_defs = timestamp_def true_divide_def binade_def round_half_even_def py_int_def
  Let_def bit_length.simps

text \<open>
  Further out the rounding shows. At 2514-05-30T01:52:54.999999Z the issue time is
  still the whole second 17179869174, while the expiry, past \<open>2 ^ 34\<close> seconds, rounds
  up to the next whole second: the two are 3601 seconds apart.
\<close>

lemma far_future_expiry:
  "py_int (timestamp 17179869174999999) = 17179869174 \<and>
   py_int (timestamp (17179869174999999 + 3600000000)) = 17179869174 + 3601"
  by (simp add: float_defs)

text \<open>
  C3, as the code has it. For a clock reading \<open>now\<close> at or after the Unix epoch whose
  expiry \<open>now + 1 h\<close> lies before \<open>2 ^ 33\<close> seconds (16 March 2242), the claim set is
  built, \<open>iat\<close> is the whole number of unix seconds of \<open>now\<close>, \<open>exp = iat + 3600\<close> and
  \<open>iat < exp\<close>.
\<close>

theorem expiry_one_hour_after_issue:
  assumes "0 \<le> now" and "now + 3600000000 < 2 ^ 33 * 1000000"
  shows "\<exists>c. build_claims sa d sc now = Inr c
           \<and> iat c = now div 1000000 \<and> exp c = iat c + 3600 \<and> iat c < exp c"
proof -
  let ?c = "payload sa d (split_str CHR '','' sc) now (now + 3600000000)"
  have b: "build_claims sa d sc now = Inr ?c"
    using assms(2) by (simp add: build_claims_def plus_one_hour_def datetime_max_def)
  have i: "iat ?c = now div 1000000"
    using assms by (simp add: payload_def timestamp_floor)
  have "exp ?c = (now + 3600 * 1000000) div 1000000"
    using assms by (simp add: payload_def timestamp_floor)
  also have "\<dots> = now div 1000000 + 3600" by simp
  finally have x: "exp ?c = iat ?c + 3600" using i by simp
  from b i x show ?thesis by simp
qed

theorem expiry_one_hour_after_issue_witness:
  "\<exists>c. build_claims ''sa@p.iam.gserviceaccount.com'' (Some ''user@example.com'') ''a,b''
          1700000000123456 = Inr c
       \<and> iat c = 1700000000 \<and> exp c = 1700003600 \<and> iat c < exp c"
  using expiry_one_hour_after_issue [of 1700000000123456 "''sa@p.iam.gserviceaccount.com''"
      "Some ''user@example.com''" "''a,b''"]
  by auto

text \<open>
  C3, as the specification words it, holds at any timestamp. Half a second before the
  epoch \<^verbatim>\<open>int\<close> truncates \<open>-0.5\<close> to \<open>0\<close> and \<open>3599.5\<close> to \<open>3599\<close>: the expiry is 3599
  seconds after the issue time.
\<close>

theorem expiry_before_epoch:
  "build_claims ''sa@p.iam.gserviceaccount.com'' (Some ''user@example.com'') ''a,b'' (- 500000)
     = Inr (payload ''sa@p.iam.gserviceaccount.com'' (Some ''user@example.com'')
              (split_str CHR '','' ''a,b'') (- 500000) 3599500000)
   \<and> iat (payload ''sa@p.iam.gserviceaccount.com'' (Some ''user@example.com'')
              (split_str CHR '','' ''a,b'') (- 500000) 3599500000) = 0
   \<and> exp (payload ''sa@p.iam.gserviceaccount.com'' (Some ''user@example.com'')
              (split_str CHR '','' ''a,b'') (- 500000) 3599500000) = 3599"
  by (simp add: build_claims_def plus_one_hour_def datetime_max_def payload_def float_defs)

end
